theory Spec2Isabelle
  imports Complex_Main "HOL-Library.Word"
begin

unbundle bit_operations_syntax

chapter \<open>TestingTiming.cpp: a periodic sine-wave transmitter on a serial line\<close>

text \<open>
  The program raises its scheduling priority, opens and configures \<^verbatim>\<open>/dev/ttyAMA0\<close>,
  and then loops forever: read the monotonic clock, compute one sample of a sine wave
  from the elapsed time, print it with four decimals, write the line to the serial
  device, sleep until an absolute deadline and advance the deadline by 50 ms.

  The embedding follows the source function by function. The operating system and the
  C library are the program's environment: the values they hand back (the result of
  \<^verbatim>\<open>sched_setscheduler\<close>, of \<^verbatim>\<open>open\<close>, every reading of \<^verbatim>\<open>clock_gettime\<close>, the
  attributes \<^verbatim>\<open>tcgetattr\<close> stores) are fields of an environment record, and what the
  program sends out is a trace of events.
\<close>

section \<open>Machine integers\<close>

text \<open>
  On the LP64 Linux targets the program is built for, \<^verbatim>\<open>long\<close>, \<^verbatim>\<open>long long\<close> and
  \<^verbatim>\<open>time_t\<close> are 64-bit two's complement integers. They are modelled as \<^typ>\<open>int\<close>
  with the wrap-around of the machine written out: every arithmetic result goes through
  \<open>s64\<close>.
\<close>

definition s64 :: "int \<Rightarrow> int" where
  "s64 x = (x + 2 ^ 63) mod 2 ^ 64 - 2 ^ 63"

definition in_s64 :: "int \<Rightarrow> bool" where
  "in_s64 x \<longleftrightarrow> - (2 ^ 63) \<le> x \<and> x < 2 ^ 63"

section \<open>struct timespec and add_ms\<close>

record timespec =
  tv_sec :: int
  tv_nsec :: int

text \<open>
  \<^verbatim>\<open>
  static inline void add_ms(struct timespec &t, long ms) {
      t.tv_nsec += ms * 1000000LL;
      while (t.tv_nsec >= 1000000000LL) {
          t.tv_nsec -= 1000000000LL;
          t.tv_sec++;
      }
  }
  \<close>
  The \<^verbatim>\<open>while\<close> loop is \<open>add_ms_loop\<close>; it terminates because each round takes
  10^9 off a \<open>tv_nsec\<close> that is at least 10^9.
\<close>

function add_ms_loop :: "timespec \<Rightarrow> timespec" where
  "add_ms_loop t =
     (if tv_nsec t \<ge> 1000000000
      then add_ms_loop (t\<lparr>tv_nsec := s64 (tv_nsec t - 1000000000),
                          tv_sec := s64 (tv_sec t + 1)\<rparr>)
      else t)"
  by pat_completeness auto
termination
proof (relation "measure (\<lambda>t. nat (tv_nsec t))")
  show "wf (measure (\<lambda>t. nat (tv_nsec t)))" by simp
next
  fix t :: timespec
  assume h: "1000000000 \<le> tv_nsec t"
  have "(tv_nsec t - 1000000000 + 2 ^ 63) mod 2 ^ 64 \<le> tv_nsec t - 1000000000 + 2 ^ 63"
    using h by (intro zmod_le_nonneg_dividend) simp
  then have "s64 (tv_nsec t - 1000000000) \<le> tv_nsec t - 1000000000"
    by (simp add: s64_def)
  then show "(t\<lparr>tv_nsec := s64 (tv_nsec t - 1000000000), tv_sec := s64 (tv_sec t + 1)\<rparr>, t)
      \<in> measure (\<lambda>t. nat (tv_nsec t))"
    using h by simp
qed

definition add_ms :: "timespec \<Rightarrow> int \<Rightarrow> timespec" where
  "add_ms t ms = add_ms_loop (t\<lparr>tv_nsec := s64 (tv_nsec t + s64 (ms * 1000000))\<rparr>)"

text \<open>The instant a timespec denotes, in nanoseconds, and the normal form of the pair.\<close>

definition to_ns :: "timespec \<Rightarrow> int" where
  "to_ns t = tv_sec t * 1000000000 + tv_nsec t"

definition normalised :: "timespec \<Rightarrow> bool" where
  "normalised t \<longleftrightarrow> 0 \<le> tv_nsec t \<and> tv_nsec t < 1000000000"

section \<open>Double-precision arithmetic\<close>

text \<open>
  A \<^verbatim>\<open>double\<close> is modelled by the real number it holds. The floating-point unit and
  the mathematics library are part of the platform: \<open>rnd\<close> takes the exact result of
  an operation to the double that is stored, and \<open>libm_sin\<close> is \<^verbatim>\<open>std::sin\<close> on
  doubles. Every operation of the source rounds once, as IEEE 754 prescribes. All values
  that occur are finite (the clock fields are 64-bit integers), so infinities and NaN
  need no representation.
\<close>

record fpu =
  rnd :: "real \<Rightarrow> real"
  libm_sin :: "real \<Rightarrow> real"

definition fadd :: "fpu \<Rightarrow> real \<Rightarrow> real \<Rightarrow> real" where
  "fadd u a b = rnd u (a + b)"

definition fmul :: "fpu \<Rightarrow> real \<Rightarrow> real \<Rightarrow> real" where
  "fmul u a b = rnd u (a * b)"

definition fdiv :: "fpu \<Rightarrow> real \<Rightarrow> real \<Rightarrow> real" where
  "fdiv u a b = rnd u (a / b)"

text \<open>Conversion of a 64-bit integer to \<^verbatim>\<open>double\<close>.\<close>

definition of_long :: "fpu \<Rightarrow> int \<Rightarrow> real" where
  "of_long u n = rnd u (of_int n)"

text \<open>
  What the proofs need of the platform: rounding is monotone and leaves the small
  integers \<open>-4\<close>, \<open>0\<close>, \<open>4\<close> and \<open>8\<close> (all representable) alone, and the library
  sine stays within \<open>[-1, 1]\<close>.
\<close>

definition fpu_sound :: "fpu \<Rightarrow> bool" where
  "fpu_sound u \<longleftrightarrow>
     mono (rnd u) \<and> rnd u (- 4) = - 4 \<and> rnd u 0 = 0 \<and> rnd u 4 = 4 \<and> rnd u 8 = 8
     \<and> (\<forall>x. - 1 \<le> libm_sin u x \<and> libm_sin u x \<le> 1)"

text \<open>The idealised unit: no rounding error at all, and the mathematical sine.\<close>

definition exact_fpu :: fpu where
  "exact_fpu = \<lparr>rnd = (\<lambda>x. x), libm_sin = sin\<rparr>"

section \<open>The sine parameters and the sample\<close>

text \<open>
  \<^verbatim>\<open>
  const double freq = 0.33;          // Hz
  const double two_pi = 2 * M_PI;
  const double amplitude = 4.0;      // half-range
  const double offset = 4.0;         // center so output is 0..8
  \<close>
  The literals \<^verbatim>\<open>0.33\<close> and \<^verbatim>\<open>M_PI\<close> are rounded to doubles by the compiler.
\<close>

definition freq :: "fpu \<Rightarrow> real" where
  "freq u = rnd u (33 / 100)"

definition M_PI :: "fpu \<Rightarrow> real" where
  "M_PI u = rnd u pi"

definition two_pi :: "fpu \<Rightarrow> real" where
  "two_pi u = fmul u 2 (M_PI u)"

definition amplitude :: real where
  "amplitude = 4"

definition offset :: real where
  "offset = 4"

text \<open>
  \<^verbatim>\<open>
  double t_sec =
      (now.tv_sec - start.tv_sec) +
      (now.tv_nsec - start.tv_nsec) / 1e9;
  double y = amplitude * std::sin(two_pi * freq * t_sec) + offset;
  \<close>
  The two differences are integer subtractions; each is converted to \<^verbatim>\<open>double\<close>
  before the division and the addition.
\<close>

definition t_sec_of :: "fpu \<Rightarrow> timespec \<Rightarrow> timespec \<Rightarrow> real" where
  "t_sec_of u now start =
     fadd u (of_long u (s64 (tv_sec now - tv_sec start)))
            (fdiv u (of_long u (s64 (tv_nsec now - tv_nsec start))) 1000000000)"

definition sample :: "fpu \<Rightarrow> real \<Rightarrow> real" where
  "sample u t_sec =
     fadd u (fmul u amplitude (libm_sin u (fmul u (fmul u (two_pi u) (freq u)) t_sec))) offset"

section \<open>Formatting: snprintf with the format "%.4f\r\n"\<close>

text \<open>
  The conversion \<^verbatim>\<open>%.4f\<close> prints the sign if the value is negative, the integer part
  in decimal with at least one digit, a point, and exactly four fractional digits; the
  value is rounded to four decimals, ties to even, as the GNU C library does in the
  default rounding mode.
\<close>

definition round_half_even :: "real \<Rightarrow> int" where
  "round_half_even x =
     (let f = \<lfloor>x\<rfloor>; r = x - of_int f
      in if r < 1 / 2 then f else if 1 / 2 < r then f + 1
         else if even f then f else f + 1)"

definition digit_char :: "nat \<Rightarrow> char" where
  "digit_char d = ''0123456789'' ! d"

fun dec_digits :: "nat \<Rightarrow> string" where
  "dec_digits n =
     (if n < 10 then [digit_char n] else dec_digits (n div 10) @ [digit_char (n mod 10)])"

definition frac4 :: "nat \<Rightarrow> string" where
  "frac4 n = [digit_char (n div 1000 mod 10), digit_char (n div 100 mod 10),
              digit_char (n div 10 mod 10), digit_char (n mod 10)]"

definition printf_f4 :: "real \<Rightarrow> string" where
  "printf_f4 y =
     (let m = nat (round_half_even (\<bar>y\<bar> * 10000))
      in (if y < 0 then [CHR ''-''] else []) @ dec_digits (m div 10000) @ [CHR ''.'']
         @ frac4 (m mod 10000))"

definition CRLF :: string where
  "CRLF = [CHR 0x0D, CHR 0x0A]"

text \<open>The text the format \<^verbatim>\<open>"%.4f\r\n"\<close> produces for \<open>y\<close>, before any truncation.\<close>

definition printf_line :: "real \<Rightarrow> string" where
  "printf_line y = printf_f4 y @ CRLF"

text \<open>
  \<^verbatim>\<open>snprintf(buffer, n, ...)\<close> stores at most \<open>n - 1\<close> characters and a NUL;
  a buffer is modelled by the characters before its NUL, which is what
  \<^verbatim>\<open>strlen\<close> counts.
\<close>

definition snprintf :: "nat \<Rightarrow> string \<Rightarrow> string" where
  "snprintf n txt = take (n - 1) txt"

definition strlen :: "string \<Rightarrow> nat" where
  "strlen buffer = length buffer"

text \<open>
  The wire format of one line: at least one digit, a point, exactly four digits,
  carriage return, line feed, and nothing else.
\<close>

definition is_digit :: "char \<Rightarrow> bool" where
  "is_digit c \<longleftrightarrow> c \<in> set ''0123456789''"

definition line_format :: "string \<Rightarrow> bool" where
  "line_format l \<longleftrightarrow>
     8 \<le> length l \<and>
     (let k = length l - 7
      in list_all is_digit (take k l) \<and> l ! k = CHR ''.''
         \<and> list_all is_digit (take 4 (drop (k + 1) l)) \<and> drop (k + 5) l = CRLF)"

text \<open>Reading a line back: the number its digits denote.\<close>

definition digit_val :: "char \<Rightarrow> nat" where
  "digit_val c = of_char c - 48"

definition dec_val :: "string \<Rightarrow> nat" where
  "dec_val ds = foldl (\<lambda>a c. 10 * a + digit_val c) 0 ds"

definition line_value :: "string \<Rightarrow> real" where
  "line_value l =
     (let k = length l - 7
      in real (dec_val (take k l)) + real (dec_val (take 4 (drop (k + 1) l))) / 10000)"

section \<open>Serial line attributes\<close>

text \<open>
  \<^verbatim>\<open>struct termios\<close> and the constants of \<^verbatim>\<open>termios.h\<close> are not part of the
  program; they are given here with their Linux values (asm-generic/termbits.h), and
  the four library calls with the behaviour termios(3) documents and the GNU C library
  implements on Linux, where the baud rate lives in the \<open>CBAUD\<close> bits of \<open>c_cflag\<close>.
\<close>

record termios =
  c_iflag :: "32 word"
  c_oflag :: "32 word"
  c_cflag :: "32 word"
  c_lflag :: "32 word"
  c_cc :: "nat \<Rightarrow> 8 word"
  c_ispeed :: "32 word"
  c_ospeed :: "32 word"

definition IGNBRK :: "32 word" where "IGNBRK = 0x1"
definition BRKINT :: "32 word" where "BRKINT = 0x2"
definition PARMRK :: "32 word" where "PARMRK = 0x8"
definition ISTRIP :: "32 word" where "ISTRIP = 0x20"
definition INLCR :: "32 word" where "INLCR = 0x40"
definition IGNCR :: "32 word" where "IGNCR = 0x80"
definition ICRNL :: "32 word" where "ICRNL = 0x100"
definition IXON :: "32 word" where "IXON = 0x400"
definition IBAUD0 :: "32 word" where "IBAUD0 = 0x80000000"
definition OPOST :: "32 word" where "OPOST = 0x1"
definition ISIG :: "32 word" where "ISIG = 0x1"
definition ICANON :: "32 word" where "ICANON = 0x2"
definition ECHO :: "32 word" where "ECHO = 0x8"
definition ECHONL :: "32 word" where "ECHONL = 0x40"
definition IEXTEN :: "32 word" where "IEXTEN = 0x8000"
definition CSIZE :: "32 word" where "CSIZE = 0x30"
definition CS8 :: "32 word" where "CS8 = 0x30"
definition CREAD :: "32 word" where "CREAD = 0x80"
definition PARENB :: "32 word" where "PARENB = 0x100"
definition CLOCAL :: "32 word" where "CLOCAL = 0x800"
definition CBAUD :: "32 word" where "CBAUD = 0x100F"
definition CBAUDEX :: "32 word" where "CBAUDEX = 0x1000"
definition B57600 :: "32 word" where "B57600 = 0x1001"
definition B115200 :: "32 word" where "B115200 = 0x1002"
definition MAX_BAUD :: "32 word" where "MAX_BAUD = 0x100F"
definition VTIME :: nat where "VTIME = 5"
definition VMIN :: nat where "VMIN = 6"

text \<open>A speed that is not one of the \<open>CBAUD\<close> codes is refused and nothing is stored.\<close>

definition bad_speed :: "32 word \<Rightarrow> bool" where
  "bad_speed speed \<longleftrightarrow> speed AND NOT CBAUD \<noteq> 0 \<and> (speed < B57600 \<or> MAX_BAUD < speed)"

definition cfsetispeed :: "termios \<Rightarrow> 32 word \<Rightarrow> termios" where
  "cfsetispeed t speed =
     (if bad_speed speed then t
      else if speed = 0 then t\<lparr>c_ispeed := speed, c_iflag := c_iflag t OR IBAUD0\<rparr>
      else t\<lparr>c_ispeed := speed, c_iflag := c_iflag t AND NOT IBAUD0,
             c_cflag := (c_cflag t AND NOT (CBAUD OR CBAUDEX)) OR speed\<rparr>)"

definition cfsetospeed :: "termios \<Rightarrow> 32 word \<Rightarrow> termios" where
  "cfsetospeed t speed =
     (if bad_speed speed then t
      else t\<lparr>c_ospeed := speed, c_cflag := (c_cflag t AND NOT (CBAUD OR CBAUDEX)) OR speed\<rparr>)"

definition cfgetispeed :: "termios \<Rightarrow> 32 word" where
  "cfgetispeed t = (if c_iflag t AND IBAUD0 \<noteq> 0 then 0 else c_cflag t AND (CBAUD OR CBAUDEX))"

definition cfgetospeed :: "termios \<Rightarrow> 32 word" where
  "cfgetospeed t = c_cflag t AND (CBAUD OR CBAUDEX)"

definition cfmakeraw :: "termios \<Rightarrow> termios" where
  "cfmakeraw t =
     t\<lparr>c_iflag := c_iflag t AND NOT (IGNBRK OR BRKINT OR PARMRK OR ISTRIP OR INLCR OR IGNCR
                                      OR ICRNL OR IXON),
       c_oflag := c_oflag t AND NOT OPOST,
       c_lflag := c_lflag t AND NOT (ECHO OR ECHONL OR ICANON OR ISIG OR IEXTEN),
       c_cflag := (c_cflag t AND NOT (CSIZE OR PARENB)) OR CS8,
       c_cc := (c_cc t)(VMIN := 1, VTIME := 0)\<rparr>"

text \<open>
  \<^verbatim>\<open>
  cfsetispeed(&options, B115200);
  cfsetospeed(&options, B115200);
  cfmakeraw(&options);
  options.c_cflag |= CREAD | CLOCAL;
  \<close>
  applied to the attributes \<^verbatim>\<open>tcgetattr\<close> stored in \<open>options\<close>.
\<close>

definition uart_config :: "termios \<Rightarrow> termios" where
  "uart_config options0 =
     (let options = cfsetispeed options0 B115200;
          options = cfsetospeed options B115200;
          options = cfmakeraw options
      in options\<lparr>c_cflag := c_cflag options OR (CREAD OR CLOCAL)\<rparr>)"

text \<open>Raw mode, as termios(3) defines what \<^verbatim>\<open>cfmakeraw\<close> establishes.\<close>

definition raw_mode :: "termios \<Rightarrow> bool" where
  "raw_mode t \<longleftrightarrow>
     c_iflag t AND (IGNBRK OR BRKINT OR PARMRK OR ISTRIP OR INLCR OR IGNCR OR ICRNL OR IXON) = 0
     \<and> c_oflag t AND OPOST = 0
     \<and> c_lflag t AND (ECHO OR ECHONL OR ICANON OR ISIG OR IEXTEN) = 0
     \<and> c_cflag t AND (CSIZE OR PARENB) = CS8
     \<and> c_cc t VMIN = 1 \<and> c_cc t VTIME = 0"

section \<open>Environment, events and the state of main\<close>

text \<open>
  What the operating system answers. \<open>clock_gettime_out k\<close> is the reading of
  \<^verbatim>\<open>CLOCK_MONOTONIC\<close> that the \<open>k\<close>-th call of \<^verbatim>\<open>clock_gettime\<close> stores
  (counting from 0); \<open>tcgetattr_out\<close> is what \<open>options\<close> holds after
  \<^verbatim>\<open>tcgetattr\<close>, whether the call filled it in or left it as it was.
\<close>

record env =
  fp :: fpu
  sched_setscheduler_ret :: int
  open_ret :: int
  tcgetattr_out :: termios
  clock_gettime_out :: "nat \<Rightarrow> timespec"

datatype event =
    Sched_setscheduler int
  | Perror string
  | Open_dev string
  | Cerr string
  | Cout string
  | Tcgetattr int
  | Tcsetattr int termios
  | Clock_gettime
  | Write int string
  | Tcdrain int
  | Clock_nanosleep timespec
  | Close int

text \<open>
  \<^verbatim>\<open>
  void enable_realtime() {
      struct sched_param param;
      param.sched_priority = 70;
      if (sched_setscheduler(0, SCHED_FIFO, &param) < 0) {
          perror("sched_setscheduler");
      }
  }
  \<close>
\<close>

definition enable_realtime :: "env \<Rightarrow> event list" where
  "enable_realtime e =
     Sched_setscheduler 70 #
     (if sched_setscheduler_ret e < 0 then [Perror ''sched_setscheduler''] else [])"

text \<open>
  \<^verbatim>\<open>
  static inline void sleep_until(const struct timespec &ts) {
      clock_nanosleep(CLOCK_MONOTONIC, TIMER_ABSTIME, &ts, nullptr);
  }
  \<close>
\<close>

definition sleep_until :: "timespec \<Rightarrow> event list" where
  "sleep_until ts = [Clock_nanosleep ts]"

text \<open>
  The variables of \<open>main\<close> that live across iterations, the number of clock readings
  taken so far, and the events so far. \<open>next_t\<close> is the variable \<^verbatim>\<open>next\<close>.
\<close>

record loop_state =
  serial_fd :: int
  next_t :: timespec
  start :: timespec
  clock_calls :: nat
  trace :: "event list"

definition port :: string where
  "port = ''/dev/ttyAMA0''"

definition banner :: string where
  "banner = ''Outputting sine wave: freq=0.33 Hz, range 0'' @ [CHR 0xE2, CHR 0x80, CHR 0x93]
            @ ''8, step=50ms'' @ [CHR 0x0A, CHR 0x0A]"

text \<open>
  Lines 32 to 66 of \<open>main\<close>: everything before the loop. The result is either the exit
  status with the events up to the \<^verbatim>\<open>return 1\<close>, or the state in which the loop is
  entered.
\<close>

definition main_setup :: "env \<Rightarrow> (int \<times> event list) + loop_state" where
  "main_setup e =
     (let tr = enable_realtime e @ [Open_dev port];
          fd = open_ret e
      in if fd = - 1 then Inl (1, tr @ [Cerr (''Failed to open UART'' @ [CHR 0x0A])])
         else
           let options = uart_config (tcgetattr_out e);
               tr = tr @ [Tcgetattr fd, Tcsetattr fd options, Cout banner];
               nxt = add_ms (clock_gettime_out e 0) 50;
               tr = tr @ [Clock_gettime];
               strt = clock_gettime_out e 1;
               tr = tr @ [Clock_gettime]
           in Inr \<lparr>serial_fd = fd, next_t = nxt, start = strt, clock_calls = 2, trace = tr\<rparr>)"

text \<open>
  Lines 70 to 78: the sample \<open>y\<close> that the iteration starting in state \<open>s\<close> computes.
\<close>

definition tick_y :: "env \<Rightarrow> loop_state \<Rightarrow> real" where
  "tick_y e s =
     (let now = clock_gettime_out e (clock_calls s);
          t_sec = t_sec_of (fp e) now (start s)
      in sample (fp e) t_sec)"

text \<open>
  Lines 70 to 91: one iteration.
  \<^verbatim>\<open>
  char buffer[32];
  snprintf(buffer, sizeof(buffer), "%.4f\r\n", y);
  write(serial_fd, buffer, strlen(buffer));
  tcdrain(serial_fd);
  std::cout << "Sent: " << buffer;
  sleep_until(next);
  add_ms(next, 50);
  \<close>
  The results of \<^verbatim>\<open>write\<close>, \<^verbatim>\<open>tcdrain\<close> and \<^verbatim>\<open>clock_nanosleep\<close> are not looked at
  by the program, so they are not part of the environment.
\<close>

definition loop_body :: "env \<Rightarrow> loop_state \<Rightarrow> loop_state" where
  "loop_body e s =
     (let y = tick_y e s;
          buffer = snprintf 32 (printf_line y);
          fd = serial_fd s
      in s\<lparr>trace := trace s @ [Clock_gettime, Write fd (take (strlen buffer) buffer), Tcdrain fd,
                                Cout (''Sent: '' @ buffer)] @ sleep_until (next_t s),
           next_t := add_ms (next_t s) 50,
           clock_calls := Suc (clock_calls s)\<rparr>)"

text \<open>The condition of \<^verbatim>\<open>while (true)\<close>.\<close>

definition loop_cond :: "loop_state \<Rightarrow> bool" where
  "loop_cond s = True"

text \<open>
  A \<^verbatim>\<open>while\<close> loop that need not terminate: the result is \<open>None\<close> when it runs
  forever.
\<close>

partial_function (option) while_loop :: "('s \<Rightarrow> bool) \<Rightarrow> ('s \<Rightarrow> 's) \<Rightarrow> 's \<Rightarrow> 's option" where
  "while_loop c b s = (if c s then while_loop c b (b s) else Some s)"

text \<open>
  \<open>main\<close> returns the exit status and the events, or \<open>None\<close> if it never returns.
  After the loop come \<^verbatim>\<open>close(serial_fd); return 0;\<close>.
\<close>

definition main :: "env \<Rightarrow> (int \<times> event list) option" where
  "main e =
     (case main_setup e of
        Inl r \<Rightarrow> Some r
      | Inr s0 \<Rightarrow>
          (case while_loop loop_cond (loop_body e) s0 of
             None \<Rightarrow> None
           | Some s \<Rightarrow> Some (0, trace s @ [Close (serial_fd s)])))"

text \<open>The lines written to the serial device, in order.\<close>

fun writes :: "event list \<Rightarrow> string list" where
  "writes [] = []"
| "writes (Write fd l # es) = l # writes es"
| "writes (_ # es) = writes es"

section \<open>Observations of a run\<close>

text \<open>
  The events up to the end of the \<open>n\<close>-th iteration, or up to the exit if the loop is
  never entered.
\<close>

definition run :: "env \<Rightarrow> nat \<Rightarrow> event list" where
  "run e n =
     (case main_setup e of
        Inl r \<Rightarrow> snd r
      | Inr s0 \<Rightarrow> trace ((loop_body e ^^ n) s0))"

text \<open>The sample computed in iteration \<open>n\<close> (counting from 0), if the loop is entered.\<close>

definition emitted :: "env \<Rightarrow> nat \<Rightarrow> real option" where
  "emitted e n =
     (case main_setup e of
        Inl r \<Rightarrow> None
      | Inr s0 \<Rightarrow> Some (tick_y e ((loop_body e ^^ n) s0)))"

text \<open>The attribute settings requested with \<^verbatim>\<open>tcsetattr\<close>, in order.\<close>

fun tcsetattrs :: "event list \<Rightarrow> (int \<times> termios) list" where
  "tcsetattrs [] = []"
| "tcsetattrs (Tcsetattr fd t # es) = (fd, t) # tcsetattrs es"
| "tcsetattrs (_ # es) = tcsetattrs es"

text \<open>The four properties of the serial configuration.\<close>

definition configured :: "termios \<Rightarrow> bool" where
  "configured t \<longleftrightarrow>
     cfgetispeed t = B115200 \<and> cfgetospeed t = B115200 \<and> raw_mode t
     \<and> c_cflag t AND CREAD = CREAD \<and> c_cflag t AND CLOCAL = CLOCAL"

text \<open>The time between two clock readings, in seconds, as a real number.\<close>

definition elapsed_sec :: "timespec \<Rightarrow> timespec \<Rightarrow> real" where
  "elapsed_sec now t0 = of_int (to_ns now - to_ns t0) / 1000000000"

section \<open>Three concrete environments\<close>

definition zero_termios :: termios where
  "zero_termios = \<lparr>c_iflag = 0, c_oflag = 0, c_cflag = 0, c_lflag = 0, c_cc = (\<lambda>_. 0),
                    c_ispeed = 0, c_ospeed = 0\<rparr>"

text \<open>
  A clock that starts at 100 s and is read at exactly 50 ms intervals, on exact
  arithmetic.
\<close>

definition steady_clock :: "nat \<Rightarrow> timespec" where
  "steady_clock k =
     (if k < 2 then \<lparr>tv_sec = 100, tv_nsec = 0\<rparr>
      else \<lparr>tv_sec = 100 + int ((k - 2) div 20), tv_nsec = int ((k - 2) mod 20) * 50000000\<rparr>)"

definition steady_env :: env where
  "steady_env = \<lparr>fp = exact_fpu, sched_setscheduler_ret = 0, open_ret = 3,
                  tcgetattr_out = zero_termios, clock_gettime_out = steady_clock\<rparr>"

definition steady_entry :: loop_state where
  "steady_entry =
     \<lparr>serial_fd = 3, next_t = \<lparr>tv_sec = 100, tv_nsec = 50000000\<rparr>,
      start = \<lparr>tv_sec = 100, tv_nsec = 0\<rparr>, clock_calls = 2,
      trace = [Sched_setscheduler 70, Open_dev port, Tcgetattr 3,
               Tcsetattr 3 (uart_config zero_termios), Cout banner, Clock_gettime,
               Clock_gettime]\<rparr>"

text \<open>
  The scheduler refuses the priority, and the process, at default priority, is woken
  10 ms late from its first sleep: the readings are 100 s, then 1 us later (start),
  1 us later again (iteration 0), and start + 60 ms (iteration 1, deadline
  100.05 s).
\<close>

definition late_clock :: "nat \<Rightarrow> timespec" where
  "late_clock k =
     (if k = 0 then \<lparr>tv_sec = 100, tv_nsec = 0\<rparr>
      else if k = 1 then \<lparr>tv_sec = 100, tv_nsec = 1000\<rparr>
      else if k = 2 then \<lparr>tv_sec = 100, tv_nsec = 2000\<rparr>
      else \<lparr>tv_sec = 100, tv_nsec = 60001000\<rparr>)"

definition late_env :: env where
  "late_env = \<lparr>fp = exact_fpu, sched_setscheduler_ret = - 1, open_ret = 3,
                tcgetattr_out = zero_termios, clock_gettime_out = late_clock\<rparr>"

text \<open>The device cannot be opened.\<close>

definition no_uart_env :: env where
  "no_uart_env = \<lparr>fp = exact_fpu, sched_setscheduler_ret = 0, open_ret = - 1,
                   tcgetattr_out = zero_termios, clock_gettime_out = steady_clock\<rparr>"

section \<open>Properties of add_ms\<close>

lemma s64_id: "in_s64 x \<Longrightarrow> s64 x = x"
  by (simp add: s64_def in_s64_def)

lemmas add_ms_loop_unfold = add_ms_loop.simps

declare add_ms_loop.simps [simp del]

lemma add_ms_loop_eq:
  "0 \<le> tv_nsec t \<Longrightarrow> in_s64 (tv_nsec t) \<Longrightarrow> in_s64 (tv_sec t) \<Longrightarrow>
   in_s64 (tv_sec t + tv_nsec t div 1000000000) \<Longrightarrow>
   add_ms_loop t = t\<lparr>tv_nsec := tv_nsec t mod 1000000000,
                     tv_sec := tv_sec t + tv_nsec t div 1000000000\<rparr>"
proof (induction t rule: add_ms_loop.induct)
  case (1 t)
  show ?case
  proof (cases "1000000000 \<le> tv_nsec t")
    case False
    with "1.prems" have "tv_nsec t div 1000000000 = 0" "tv_nsec t mod 1000000000 = tv_nsec t"
      by simp_all
    with False show ?thesis
      by (simp add: add_ms_loop_unfold [of t])
  next
    case True
    let ?n = "tv_nsec t - 1000000000"
    let ?t' = "t\<lparr>tv_nsec := s64 ?n, tv_sec := s64 (tv_sec t + 1)\<rparr>"
    have dm: "tv_nsec t div 1000000000 = ?n div 1000000000 + 1"
      "tv_nsec t mod 1000000000 = ?n mod 1000000000"
      by (simp_all add: div_pos_geq mod_pos_geq)
    have n: "in_s64 ?n" "0 \<le> ?n"
      using True "1.prems" by (simp_all add: in_s64_def)
    have "0 \<le> ?n div 1000000000"
      using n by simp
    then have s: "in_s64 (tv_sec t + 1)"
      using "1.prems" dm by (simp add: in_s64_def)
    have w: "s64 ?n = ?n" "s64 (tv_sec t + 1) = tv_sec t + 1"
      using n s by (simp_all add: s64_id)
    have eq: "tv_sec t + 1 + ?n div 1000000000 = tv_sec t + tv_nsec t div 1000000000"
      using dm by simp
    have "add_ms_loop ?t' = ?t'\<lparr>tv_nsec := tv_nsec ?t' mod 1000000000,
                     tv_sec := tv_sec ?t' + tv_nsec ?t' div 1000000000\<rparr>"
    proof (rule "1.IH" [OF True])
      show "0 \<le> tv_nsec ?t'" "in_s64 (tv_nsec ?t')" "in_s64 (tv_sec ?t')"
        using n s by (simp_all add: w)
      show "in_s64 (tv_sec ?t' + tv_nsec ?t' div 1000000000)"
        using "1.prems"(4) by (simp add: w eq)
    qed
    then have "add_ms_loop ?t' = t\<lparr>tv_nsec := ?n mod 1000000000,
                     tv_sec := tv_sec t + 1 + ?n div 1000000000\<rparr>"
      by (simp only: w timespec.simps timespec.update_convs) simp
    moreover have "add_ms_loop t = add_ms_loop ?t'"
      using True by (subst add_ms_loop_unfold) simp
    ultimately show ?thesis
      by (simp add: eq dm(2) [symmetric])
  qed
qed

lemma add_ms_eq:
  assumes "in_s64 (ms * 1000000)" and "in_s64 (tv_nsec t + ms * 1000000)"
    and "0 \<le> tv_nsec t + ms * 1000000" and "in_s64 (tv_sec t)"
    and "in_s64 (tv_sec t + (tv_nsec t + ms * 1000000) div 1000000000)"
  shows "add_ms t ms = t\<lparr>tv_nsec := (tv_nsec t + ms * 1000000) mod 1000000000,
                         tv_sec := tv_sec t + (tv_nsec t + ms * 1000000) div 1000000000\<rparr>"
  using assms by (simp add: add_ms_def s64_id add_ms_loop_eq)

lemma add_ms_to_ns:
  assumes "in_s64 (ms * 1000000)" and "in_s64 (tv_nsec t + ms * 1000000)"
    and "0 \<le> tv_nsec t + ms * 1000000" and "in_s64 (tv_sec t)"
    and "in_s64 (tv_sec t + (tv_nsec t + ms * 1000000) div 1000000000)"
  shows "to_ns (add_ms t ms) = to_ns t + ms * 1000000"
    and "normalised (add_ms t ms)"
  by (simp_all add: add_ms_eq [OF assms] to_ns_def normalised_def algebra_simps)

text \<open>
  C9, as amended. For a normalised timespec \<open>t\<close> and a non-negative \<open>ms\<close>,
  \<open>add_ms\<close> leaves \<open>0 \<le> tv_nsec < 10^9\<close> and the pair denotes exactly the original
  instant plus \<open>ms\<close> milliseconds, provided that not only the product \<open>ms * 10^6\<close> but
  also the sum \<open>tv_nsec + ms * 10^6\<close> and the seconds after the carry,
  \<open>tv_sec + (tv_nsec + ms * 10^6) div 10^9\<close>, fit the signed 64-bit fields.
\<close>

theorem add_ms_preserves_normalisation:
  assumes "normalised t" and "0 \<le> ms" and "in_s64 (tv_sec t)"
    and "in_s64 (ms * 1000000)"
    and "in_s64 (tv_nsec t + ms * 1000000)"
    and "in_s64 (tv_sec t + (tv_nsec t + ms * 1000000) div 1000000000)"
  shows "normalised (add_ms t ms) \<and> to_ns (add_ms t ms) = to_ns t + ms * 1000000"
proof -
  have "0 \<le> tv_nsec t + ms * 1000000"
    using assms(1,2) by (simp add: normalised_def)
  with assms show ?thesis
    by (simp add: add_ms_to_ns)
qed

text \<open>
  C9, witness: 50 ms added to 5.975 s carries into the seconds and gives 6.025 s.
\<close>

theorem add_ms_preserves_normalisation_witness:
  "normalised \<lparr>tv_sec = 5, tv_nsec = 975000000\<rparr> \<and> (0::int) \<le> 50 \<and> in_s64 5
   \<and> in_s64 (50 * 1000000) \<and> in_s64 (975000000 + 50 * 1000000)
   \<and> in_s64 (5 + (975000000 + 50 * 1000000) div 1000000000)
   \<and> normalised (add_ms \<lparr>tv_sec = 5, tv_nsec = 975000000\<rparr> 50)
   \<and> to_ns (add_ms \<lparr>tv_sec = 5, tv_nsec = 975000000\<rparr> 50) = 6025000000"
  using add_ms_preserves_normalisation [of "\<lparr>tv_sec = 5, tv_nsec = 975000000\<rparr>" 50]
  by (simp add: normalised_def in_s64_def to_ns_def)

text \<open>
  C9, counterexample to the claim as stated. With \<open>tv_nsec = 999999999\<close> and
  \<open>ms = 9223372036854\<close> the product \<open>ms * 10^6\<close> is representable, but adding it to
  \<open>tv_nsec\<close> exceeds 2^63 - 1: the field wraps to a negative value, the loop does not
  run, and the result is not normalised.
\<close>

theorem add_ms_sum_overflow_counterexample:
  "normalised \<lparr>tv_sec = 0, tv_nsec = 999999999\<rparr> \<and> (0::int) \<le> 9223372036854
   \<and> in_s64 9223372036854 \<and> in_s64 (9223372036854 * 1000000)
   \<and> add_ms \<lparr>tv_sec = 0, tv_nsec = 999999999\<rparr> 9223372036854
       = \<lparr>tv_sec = 0, tv_nsec = - 9223372035855551617\<rparr>
   \<and> \<not> normalised (add_ms \<lparr>tv_sec = 0, tv_nsec = 999999999\<rparr> 9223372036854)"
  by (simp add: normalised_def in_s64_def add_ms_def s64_def add_ms_loop_unfold)

section \<open>The loop: invariants, non-termination, range of the sample\<close>

lemma loop_body_fields [simp]:
  "start (loop_body e s) = start s"
  "serial_fd (loop_body e s) = serial_fd s"
  "clock_calls (loop_body e s) = Suc (clock_calls s)"
  "next_t (loop_body e s) = add_ms (next_t s) 50"
  by (simp_all add: loop_body_def sleep_until_def Let_def)

lemma iter_fields:
  "start ((loop_body e ^^ n) s) = start s"
  "serial_fd ((loop_body e ^^ n) s) = serial_fd s"
  "clock_calls ((loop_body e ^^ n) s) = clock_calls s + n"
  "next_t ((loop_body e ^^ n) s) = ((\<lambda>t. add_ms t 50) ^^ n) (next_t s)"
  by (induction n) simp_all

lemma writes_append: "writes (xs @ ys) = writes xs @ writes ys"
  by (induction xs rule: writes.induct) simp_all

lemma loop_body_writes:
  "writes (trace (loop_body e s)) = writes (trace s) @ [snprintf 32 (printf_line (tick_y e s))]"
  by (simp add: loop_body_def sleep_until_def Let_def writes_append strlen_def)

lemma iter_writes:
  "writes (trace ((loop_body e ^^ n) s)) =
     writes (trace s) @ map (\<lambda>k. snprintf 32 (printf_line (tick_y e ((loop_body e ^^ k) s)))) [0..<n]"
  by (induction n) (simp_all add: loop_body_writes)

lemma while_loop_exit:
  assumes "while_loop c b s = Some s'"
  shows "\<not> c s'"
proof (rule while_loop.raw_induct [where P = "\<lambda>c b s s'. \<not> c s'", OF _ assms])
  fix f :: "('a \<Rightarrow> bool) \<Rightarrow> ('a \<Rightarrow> 'a) \<Rightarrow> 'a \<Rightarrow> 'a option" and c b s s'
  assume ih: "\<And>c b s s'. f c b s = Some s' \<Longrightarrow> \<not> c s'"
    and step: "(if c s then f c b (b s) else Some s) = Some s'"
  show "\<not> c s'"
  proof (cases "c s")
    case True
    with step have "f c b (b s) = Some s'" by simp
    then show ?thesis by (rule ih)
  next
    case False
    with step show ?thesis by simp
  qed
qed

lemma while_loop_forever: "(\<And>s. c s) \<Longrightarrow> while_loop c b s = None"
  using while_loop_exit [of c b s] by (cases "while_loop c b s") auto

lemma sample_range:
  assumes "fpu_sound u"
  shows "0 \<le> sample u t" and "sample u t \<le> 8"
proof -
  let ?s = "libm_sin u (fmul u (fmul u (two_pi u) (freq u)) t)"
  from assms have m: "mono (rnd u)" and s: "- 1 \<le> ?s" "?s \<le> 1"
    and r: "rnd u (- 4) = - 4" "rnd u 0 = 0" "rnd u 4 = 4" "rnd u 8 = 8"
    by (simp_all add: fpu_sound_def)
  let ?p = "fmul u amplitude ?s"
  have "rnd u (- 4) \<le> ?p" "?p \<le> rnd u 4"
    using s by (auto simp: fmul_def amplitude_def intro!: monoD [OF m])
  then have p: "- 4 \<le> ?p" "?p \<le> 4"
    by (simp_all add: r)
  have "rnd u 0 \<le> fadd u ?p offset" "fadd u ?p offset \<le> rnd u 8"
    using p by (auto simp: fadd_def offset_def intro!: monoD [OF m])
  then show "0 \<le> sample u t" and "sample u t \<le> 8"
    by (simp_all add: r sample_def)
qed

lemma exact_fpu_sound: "fpu_sound exact_fpu"
  by (simp add: fpu_sound_def exact_fpu_def mono_def)


section \<open>Rounding, digits and the shape of a line\<close>

lemma round_half_even_floor:
  "\<lfloor>x\<rfloor> \<le> round_half_even x" "round_half_even x \<le> \<lfloor>x\<rfloor> + 1"
  by (simp_all add: round_half_even_def Let_def)

lemma round_half_even_le:
  assumes "x \<le> of_int n"
  shows "round_half_even x \<le> n"
proof (cases "\<lfloor>x\<rfloor> < n")
  case True
  with round_half_even_floor(2) [of x] show ?thesis by linarith
next
  case False
  moreover have "\<lfloor>x\<rfloor> \<le> n"
    using assms by (simp add: floor_le_iff)
  ultimately have "\<lfloor>x\<rfloor> = n" by simp
  with assms have "x = of_int \<lfloor>x\<rfloor>"
    using of_int_floor_le [of x] by simp
  then have "x - of_int \<lfloor>x\<rfloor> = 0" by simp
  then have "round_half_even x = \<lfloor>x\<rfloor>"
    by (simp add: round_half_even_def Let_def)
  with \<open>\<lfloor>x\<rfloor> = n\<close> show ?thesis by simp
qed

lemma round_half_even_error: "\<bar>of_int (round_half_even x) - x\<bar> \<le> 1 / 2"
proof -
  have "of_int \<lfloor>x\<rfloor> \<le> x" "x < of_int \<lfloor>x\<rfloor> + 1"
    by linarith+
  then show ?thesis
    by (auto simp: round_half_even_def Let_def abs_le_iff)
qed

lemma digit_cases:
  assumes "d < (10::nat)"
  obtains "d = 0" | "d = 1" | "d = 2" | "d = 3" | "d = 4" | "d = 5" | "d = 6" | "d = 7"
    | "d = 8" | "d = 9"
  using assms by atomize_elim presburger

lemma is_digit_digit_char: "d < 10 \<Longrightarrow> is_digit (digit_char d)"
  by (erule digit_cases) (simp_all add: is_digit_def digit_char_def)

lemma digit_val_digit_char: "d < 10 \<Longrightarrow> digit_val (digit_char d) = d"
  by (erule digit_cases) (simp_all add: digit_val_def digit_char_def)

lemma frac4_digits: "list_all is_digit (frac4 n)"
  by (simp add: frac4_def is_digit_digit_char)

lemma dec_val_frac4: "n < 10000 \<Longrightarrow> dec_val (frac4 n) = n"
proof -
  assume n: "n < 10000"
  define n1 n2 n3 where "n1 = n div 10" and "n2 = n div 100" and "n3 = n div 1000"
  have d: "n2 = n1 div 10" "n3 = n2 div 10"
    by (simp_all add: n1_def n2_def n3_def div_mult2_eq [symmetric])
  have "n3 < 10"
    using n by (simp add: n3_def)
  then have "n3 mod 10 = n3" by simp
  then have "10 * (10 * (10 * (n3 mod 10) + n2 mod 10) + n1 mod 10) + n mod 10
      = 10 * (10 * (10 * (n2 div 10) + n2 mod 10) + n1 mod 10) + n mod 10"
    by (simp add: d)
  also have "\<dots> = 10 * (10 * (n1 div 10) + n1 mod 10) + n mod 10"
    by (simp add: d)
  also have "\<dots> = n"
    by (simp add: n1_def)
  finally have e: "10 * (10 * (10 * (n3 mod 10) + n2 mod 10) + n1 mod 10) + n mod 10 = n" .
  have "dec_val (frac4 n) = 10 * (10 * (10 * (n3 mod 10) + n2 mod 10) + n1 mod 10) + n mod 10"
    by (simp add: frac4_def dec_val_def digit_val_digit_char n1_def n2_def n3_def)
  with e show ?thesis
    by (simp only:)
qed


lemma printf_line_small:
  assumes "0 \<le> y" and "y \<le> 8"
  shows "\<exists>m \<le> 80000. \<bar>real m - y * 10000\<bar> \<le> 1 / 2 \<and>
     printf_line y = digit_char (m div 10000) # CHR ''.'' # frac4 (m mod 10000) @ CRLF"
proof -
  let ?r = "round_half_even (y * 10000)"
  let ?m = "nat ?r"
  have a: "\<bar>y\<bar> = y" "\<not> y < 0"
    using assms(1) by simp_all
  have "y * 10000 \<le> of_int 80000"
    using assms by simp
  then have hi: "?r \<le> 80000"
    by (rule round_half_even_le)
  have "0 \<le> \<lfloor>y * 10000\<rfloor>"
    using assms(1) by simp
  with round_half_even_floor(1) [of "y * 10000"] have lo: "0 \<le> ?r"
    by linarith
  have m: "?m \<le> 80000" "real ?m = of_int ?r"
    using hi lo by simp_all
  then have "?m div 10000 < 10"
    by simp
  then have dd: "dec_digits (?m div 10000) = [digit_char (?m div 10000)]"
    by simp
  have "\<bar>real ?m - y * 10000\<bar> \<le> 1 / 2"
    using round_half_even_error [of "y * 10000"] by (simp only: m(2))
  moreover have "printf_line y = digit_char (?m div 10000) # CHR ''.'' # frac4 (?m mod 10000) @ CRLF"
    by (simp add: printf_line_def printf_f4_def Let_def a dd del: dec_digits.simps)
  ultimately show ?thesis
    using m(1) by blast
qed

lemma length_frac4 [simp]: "length (frac4 n) = 4"
  by (simp add: frac4_def)

lemma line_shape:
  assumes "d < 10"
  shows "line_format (digit_char d # CHR ''.'' # frac4 n @ CRLF)"
    and "length (digit_char d # CHR ''.'' # frac4 n @ CRLF) = 8"
  using assms by (simp_all add: line_format_def CRLF_def is_digit_digit_char frac4_digits)

lemma line_value_shape:
  assumes "m \<le> 80000"
  shows "line_value (digit_char (m div 10000) # CHR ''.'' # frac4 (m mod 10000) @ CRLF)
         = real m / 10000"
proof -
  have "m div 10000 < 10" using assms by simp
  then have "dec_val [digit_char (m div 10000)] = m div 10000"
    by (simp add: dec_val_def digit_val_digit_char)
  moreover have "dec_val (frac4 (m mod 10000)) = m mod 10000"
    by (simp add: dec_val_frac4)
  moreover have "real (m div 10000) + real (m mod 10000) / 10000 = real m / 10000"
  proof -
    have "real m = real (10000 * (m div 10000) + m mod 10000)"
      by simp
    then have "real m = 10000 * real (m div 10000) + real (m mod 10000)"
      by (simp only: of_nat_add of_nat_mult of_nat_numeral)
    then show ?thesis
      by (simp add: field_simps)
  qed
  ultimately show ?thesis
    by (simp add: line_value_def CRLF_def)
qed


section \<open>The serial configuration\<close>

lemma B115200_ok: "\<not> bad_speed B115200" "B115200 \<noteq> 0"
  by (simp_all add: bad_speed_def B115200_def CBAUD_def B57600_def MAX_BAUD_def)

lemma uart_config_cflag:
  "c_cflag (uart_config t) =
     ((((((c_cflag t AND NOT (CBAUD OR CBAUDEX)) OR B115200) AND NOT (CBAUD OR CBAUDEX)) OR B115200)
        AND NOT (CSIZE OR PARENB)) OR CS8) OR (CREAD OR CLOCAL)"
  by (simp add: uart_config_def cfsetispeed_def cfsetospeed_def cfmakeraw_def B115200_ok Let_def)

lemma uart_config_iflag:
  "c_iflag (uart_config t) =
     (c_iflag t AND NOT IBAUD0) AND NOT (IGNBRK OR BRKINT OR PARMRK OR ISTRIP OR INLCR OR IGNCR
                                      OR ICRNL OR IXON)"
  by (simp add: uart_config_def cfsetispeed_def cfsetospeed_def cfmakeraw_def B115200_ok Let_def)

lemma uart_config_others:
  "c_oflag (uart_config t) = c_oflag t AND NOT OPOST"
  "c_lflag (uart_config t) = c_lflag t AND NOT (ECHO OR ECHONL OR ICANON OR ISIG OR IEXTEN)"
  "c_cc (uart_config t) = (c_cc t)(VMIN := 1, VTIME := 0)"
  by (simp_all add: uart_config_def cfsetispeed_def cfsetospeed_def cfmakeraw_def B115200_ok Let_def)

lemmas mask_defs = IGNBRK_def BRKINT_def PARMRK_def ISTRIP_def INLCR_def IGNCR_def ICRNL_def
  IXON_def IBAUD0_def OPOST_def ISIG_def ICANON_def ECHO_def ECHONL_def IEXTEN_def CSIZE_def
  CS8_def CREAD_def PARENB_def CLOCAL_def CBAUD_def CBAUDEX_def B115200_def

lemmas mask_simps = bit.conj_disj_distrib2 bit.conj_disj_distrib ac_simps

lemma and_not_self: "(x AND NOT m) AND m = (0 :: 32 word)"
  by (simp add: and.assoc)

lemma uart_config_ospeed: "cfgetospeed (uart_config t) = B115200"
  by (simp add: cfgetospeed_def uart_config_cflag mask_defs mask_simps)

lemma uart_config_ibaud0: "c_iflag (uart_config t) AND IBAUD0 = 0"
  by (simp add: uart_config_iflag mask_defs mask_simps)

lemma uart_config_ispeed: "cfgetispeed (uart_config t) = B115200"
  by (simp add: cfgetispeed_def uart_config_ibaud0)
    (simp add: uart_config_cflag mask_defs mask_simps)

lemma uart_config_raw: "raw_mode (uart_config t)"
  unfolding raw_mode_def
proof (intro conjI)
  show "c_iflag (uart_config t)
      AND (IGNBRK OR BRKINT OR PARMRK OR ISTRIP OR INLCR OR IGNCR OR ICRNL OR IXON) = 0"
    by (simp add: uart_config_iflag mask_defs mask_simps)
  show "c_oflag (uart_config t) AND OPOST = 0"
    by (simp add: uart_config_others and_not_self)
  show "c_lflag (uart_config t) AND (ECHO OR ECHONL OR ICANON OR ISIG OR IEXTEN) = 0"
    by (simp add: uart_config_others mask_defs mask_simps)
  show "c_cflag (uart_config t) AND (CSIZE OR PARENB) = CS8"
    by (simp add: uart_config_cflag mask_defs mask_simps)
  show "c_cc (uart_config t) VMIN = 1" "c_cc (uart_config t) VTIME = 0"
    by (simp_all add: uart_config_others VMIN_def VTIME_def)
qed

lemma uart_config_cread_clocal:
  "c_cflag (uart_config t) AND CREAD = CREAD" "c_cflag (uart_config t) AND CLOCAL = CLOCAL"
  by (simp_all add: uart_config_cflag mask_defs mask_simps)

section \<open>Before the loop\<close>

lemma main_setup_fail:
  "open_ret e = - 1 \<Longrightarrow>
   main_setup e = Inl (1, enable_realtime e @ [Open_dev port, Cerr (''Failed to open UART'' @ [CHR 0x0A])])"
  by (simp add: main_setup_def Let_def)

lemma main_setup_ok:
  "open_ret e \<noteq> - 1 \<Longrightarrow>
   main_setup e = Inr \<lparr>serial_fd = open_ret e, next_t = add_ms (clock_gettime_out e 0) 50,
     start = clock_gettime_out e 1, clock_calls = 2,
     trace = enable_realtime e @ [Open_dev port, Tcgetattr (open_ret e),
       Tcsetattr (open_ret e) (uart_config (tcgetattr_out e)), Cout banner, Clock_gettime,
       Clock_gettime]\<rparr>"
  by (simp add: main_setup_def Let_def)

lemma main_setup_InrD:
  assumes "main_setup e = Inr s0"
  shows "open_ret e \<noteq> - 1"
    and "s0 = \<lparr>serial_fd = open_ret e, next_t = add_ms (clock_gettime_out e 0) 50,
     start = clock_gettime_out e 1, clock_calls = 2,
     trace = enable_realtime e @ [Open_dev port, Tcgetattr (open_ret e),
       Tcsetattr (open_ret e) (uart_config (tcgetattr_out e)), Cout banner, Clock_gettime,
       Clock_gettime]\<rparr>"
proof -
  show ok: "open_ret e \<noteq> - 1"
    using assms main_setup_fail [of e] by auto
  show "s0 = \<lparr>serial_fd = open_ret e, next_t = add_ms (clock_gettime_out e 0) 50,
     start = clock_gettime_out e 1, clock_calls = 2,
     trace = enable_realtime e @ [Open_dev port, Tcgetattr (open_ret e),
       Tcsetattr (open_ret e) (uart_config (tcgetattr_out e)), Cout banner, Clock_gettime,
       Clock_gettime]\<rparr>"
    using assms main_setup_ok [OF ok] by simp
qed

lemma writes_enable_realtime [simp]: "writes (enable_realtime e) = []"
  by (simp add: enable_realtime_def)

lemma entry_writes: "main_setup e = Inr s0 \<Longrightarrow> writes (trace s0) = []"
  by (drule main_setup_InrD(2)) (simp add: writes_append)

lemma main_diverges: "open_ret e \<noteq> - 1 \<Longrightarrow> main e = None"
  by (simp add: main_def main_setup_ok while_loop_forever loop_cond_def)

lemma main_exits: "open_ret e = - 1 \<Longrightarrow>
  main e = Some (1, enable_realtime e @ [Open_dev port, Cerr (''Failed to open UART'' @ [CHR 0x0A])])"
  by (simp add: main_def main_setup_fail)

lemma tick_y_range:
  "fpu_sound (fp e) \<Longrightarrow> 0 \<le> tick_y e s \<and> tick_y e s \<le> 8"
  by (simp add: tick_y_def Let_def sample_range)

lemma steady_setup: "main_setup steady_env = Inr steady_entry"
  by (simp add: main_setup_def steady_env_def steady_entry_def Let_def enable_realtime_def
      steady_clock_def add_ms_def s64_def add_ms_loop_unfold)

lemma steady_tick0: "tick_y steady_env steady_entry = 4"
  by (simp add: tick_y_def steady_env_def steady_entry_def steady_clock_def Let_def
      t_sec_of_def sample_def exact_fpu_def fadd_def fmul_def fdiv_def of_long_def s64_def
      amplitude_def offset_def)

lemma printf_line_4: "printf_line 4 = ''4.0000'' @ CRLF"
  by (simp add: printf_line_def printf_f4_def round_half_even_def frac4_def digit_char_def)

section \<open>Samples and lines\<close>

lemma steady_fp [simp]: "fp steady_env = exact_fpu" "open_ret steady_env = 3"
  by (simp_all add: steady_env_def)

lemma line_ok:
  assumes "0 \<le> y" and "y \<le> 8"
  shows "length (printf_line y) = 8" and "line_format (printf_line y)"
    and "\<bar>line_value (printf_line y) - y\<bar> \<le> 1 / 20000"
    and "drop 6 (printf_line y) = CRLF"
proof -
  from printf_line_small [OF assms] obtain m where m: "m \<le> 80000"
    and err: "\<bar>real m - y * 10000\<bar> \<le> 1 / 2"
    and l: "printf_line y = digit_char (m div 10000) # CHR ''.'' # frac4 (m mod 10000) @ CRLF"
    by blast
  have d: "m div 10000 < 10" using m by simp
  show "length (printf_line y) = 8" and "line_format (printf_line y)"
    using line_shape [OF d] by (simp_all only: l)
  have "line_value (printf_line y) = real m / 10000"
    using line_value_shape [OF m] by (simp only: l)
  then have "\<bar>line_value (printf_line y) - y\<bar> = \<bar>real m / 10000 - y\<bar>"
    by (simp only:)
  also have "\<dots> = \<bar>real m - y * 10000\<bar> / 10000"
    by (simp add: field_simps)
  also have "\<dots> \<le> (1 / 2) / 10000"
    using err by (rule divide_right_mono) simp
  finally show "\<bar>line_value (printf_line y) - y\<bar> \<le> 1 / 20000"
    by simp
  show "drop 6 (printf_line y) = CRLF"
    by (simp add: l)
qed

lemma snprintf_whole: "length l < 32 \<Longrightarrow> snprintf 32 l = l"
  by (simp add: snprintf_def)

text \<open>
  C2. In every iteration, whatever the clock reads, the sample \<open>y\<close> lies within
  \<open>[offset - amplitude, offset + amplitude]\<close>, which is \<open>[0, 8]\<close>. This holds for the
  rounded double arithmetic of any platform whose rounding is monotone and exact on
  \<open>-4\<close>, \<open>0\<close>, \<open>4\<close>, \<open>8\<close> and whose sine stays within \<open>[-1, 1]\<close>.
\<close>

theorem sample_in_range:
  assumes "fpu_sound (fp e)"
  shows "offset - amplitude \<le> tick_y e s \<and> tick_y e s \<le> offset + amplitude
         \<and> offset - amplitude = 0 \<and> offset + amplitude = 8
         \<and> (\<forall>t_sec. 0 \<le> sample (fp e) t_sec \<and> sample (fp e) t_sec \<le> 8)"
  using tick_y_range [OF assms, of s] sample_range [OF assms]
  by (simp add: amplitude_def offset_def)

text \<open>
  C2, witness: on exact arithmetic the first sample of the steady run is 4, the centre
  of the range.
\<close>

theorem sample_in_range_witness:
  "fpu_sound (fp steady_env) \<and> tick_y steady_env steady_entry = 4
   \<and> offset - amplitude \<le> tick_y steady_env steady_entry
   \<and> tick_y steady_env steady_entry \<le> offset + amplitude"
  using sample_in_range [of steady_env steady_entry]
  by (simp add: exact_fpu_sound steady_tick0)

text \<open>
  C3. After \<open>n\<close> iterations exactly \<open>n\<close> lines have been written to the serial device,
  the \<open>k\<close>-th being the \<^verbatim>\<open>"%.4f\r\n"\<close> rendering of the sample of iteration \<open>k\<close>. Every
  such line has the wire format (digits, a point, exactly four digits, CR, LF), and the
  number it spells is the sample rounded to four decimals: it differs from the sample
  by at most 0.00005.
\<close>

theorem one_line_per_tick:
  assumes "fpu_sound (fp e)" and "main_setup e = Inr s0"
  shows "writes (trace ((loop_body e ^^ n) s0))
           = map (\<lambda>k. printf_line (tick_y e ((loop_body e ^^ k) s0))) [0..<n]
         \<and> (\<forall>k. line_format (printf_line (tick_y e ((loop_body e ^^ k) s0)))
                \<and> \<bar>line_value (printf_line (tick_y e ((loop_body e ^^ k) s0)))
                     - tick_y e ((loop_body e ^^ k) s0)\<bar> \<le> 1 / 20000)"
proof -
  have r: "0 \<le> tick_y e s \<and> tick_y e s \<le> 8" for s
    by (rule tick_y_range [OF assms(1)])
  have "snprintf 32 (printf_line (tick_y e s)) = printf_line (tick_y e s)" for s
    using r [of s] by (simp add: snprintf_whole line_ok(1))
  then have "writes (trace ((loop_body e ^^ n) s0))
           = map (\<lambda>k. printf_line (tick_y e ((loop_body e ^^ k) s0))) [0..<n]"
    by (simp add: iter_writes entry_writes [OF assms(2)])
  moreover have "line_format (printf_line (tick_y e s))
      \<and> \<bar>line_value (printf_line (tick_y e s)) - tick_y e s\<bar> \<le> 1 / 20000" for s
    using r [of s] line_ok(2,3) [of "tick_y e s"] by blast
  ultimately show ?thesis
    by blast
qed

text \<open>
  C3, witness: the steady run writes \<^verbatim>\<open>"4.0000\r\n"\<close> in its first iteration.
\<close>

theorem one_line_per_tick_witness:
  "fpu_sound (fp steady_env) \<and> main_setup steady_env = Inr steady_entry
   \<and> writes (trace ((loop_body steady_env ^^ 1) steady_entry)) = [''4.0000'' @ CRLF]
   \<and> line_format (''4.0000'' @ CRLF) \<and> line_value (''4.0000'' @ CRLF) = 4"
proof -
  have "line_value (''4.0000'' @ CRLF) = 4"
    by (simp add: line_value_def CRLF_def dec_val_def digit_val_def)
  moreover have "line_format (''4.0000'' @ CRLF)"
    by (simp add: line_format_def CRLF_def is_digit_def)
  ultimately show ?thesis
    using one_line_per_tick [of steady_env steady_entry 1]
    by (simp add: exact_fpu_sound steady_setup steady_tick0 printf_line_4)
qed

text \<open>
  C10. For a sample \<open>y\<close> in \<open>[0, 8]\<close> the formatted text has 8 characters, so with its
  NUL it fits the 32-byte buffer: \<^verbatim>\<open>snprintf\<close> truncates nothing, and the
  \<^verbatim>\<open>strlen(buffer)\<close> bytes handed to \<^verbatim>\<open>write\<close> are the whole line, ending in CR LF.
\<close>

theorem line_fits_buffer:
  assumes "0 \<le> y" and "y \<le> 8"
  shows "length (printf_line y) = 8 \<and> length (printf_line y) + 1 \<le> 32
         \<and> snprintf 32 (printf_line y) = printf_line y
         \<and> take (strlen (snprintf 32 (printf_line y))) (snprintf 32 (printf_line y))
             = printf_line y
         \<and> drop 6 (printf_line y) = CRLF"
  using line_ok [OF assms] by (simp add: snprintf_whole strlen_def)

text \<open>
  C10, witness: the largest sample, 8, is printed as \<^verbatim>\<open>"8.0000\r\n"\<close>.
\<close>

theorem line_fits_buffer_witness:
  "(0::real) \<le> 8 \<and> (8::real) \<le> 8 \<and> printf_line 8 = ''8.0000'' @ CRLF
   \<and> length (printf_line 8) = 8 \<and> snprintf 32 (printf_line 8) = ''8.0000'' @ CRLF"
proof -
  have "printf_line 8 = ''8.0000'' @ CRLF"
    by (simp add: printf_line_def printf_f4_def round_half_even_def frac4_def digit_char_def)
  then show ?thesis
    using line_fits_buffer [of 8] by simp
qed

section \<open>Failure handling, configuration and non-termination\<close>

lemma tcsetattrs_append: "tcsetattrs (xs @ ys) = tcsetattrs xs @ tcsetattrs ys"
  by (induction xs rule: tcsetattrs.induct) simp_all

lemma loop_body_tcsetattrs: "tcsetattrs (trace (loop_body e s)) = tcsetattrs (trace s)"
  by (simp add: loop_body_def sleep_until_def Let_def tcsetattrs_append)

lemma iter_tcsetattrs: "tcsetattrs (trace ((loop_body e ^^ n) s)) = tcsetattrs (trace s)"
  by (induction n) (simp_all add: loop_body_tcsetattrs)

lemma run_fail:
  "open_ret e = - 1 \<Longrightarrow>
   run e n = enable_realtime e @ [Open_dev port, Cerr (''Failed to open UART'' @ [CHR 0x0A])]"
  by (simp add: run_def main_setup_fail)

lemma run_ok:
  "open_ret e \<noteq> - 1 \<Longrightarrow>
   run e n = trace ((loop_body e ^^ n)
     \<lparr>serial_fd = open_ret e, next_t = add_ms (clock_gettime_out e 0) 50,
      start = clock_gettime_out e 1, clock_calls = 2,
      trace = enable_realtime e @ [Open_dev port, Tcgetattr (open_ret e),
        Tcsetattr (open_ret e) (uart_config (tcgetattr_out e)), Cout banner, Clock_gettime,
        Clock_gettime]\<rparr>)"
  by (simp add: run_def main_setup_ok)

lemma loop_body_prefix:
  "loop_body e (s\<lparr>trace := p @ trace s\<rparr>) = (loop_body e s)\<lparr>trace := p @ trace (loop_body e s)\<rparr>"
  by (simp add: loop_body_def sleep_until_def tick_y_def Let_def)

lemma iter_prefix:
  "(loop_body e ^^ n) (s\<lparr>trace := p @ trace s\<rparr>)
     = ((loop_body e ^^ n) s)\<lparr>trace := p @ trace ((loop_body e ^^ n) s)\<rparr>"
  by (induction n) (simp_all add: loop_body_prefix)

lemma loop_body_env:
  "fp e = fp e' \<Longrightarrow> clock_gettime_out e = clock_gettime_out e' \<Longrightarrow> loop_body e = loop_body e'"
  by (rule ext) (simp add: loop_body_def sleep_until_def tick_y_def Let_def)

lemma enable_realtime_cases:
  "sched_setscheduler_ret e < 0 \<Longrightarrow>
     enable_realtime e = [Sched_setscheduler 70, Perror ''sched_setscheduler'']"
  "0 \<le> sched_setscheduler_ret e \<Longrightarrow> enable_realtime e = [Sched_setscheduler 70]"
  by (simp_all add: enable_realtime_def)

text \<open>
  C4. If \<^verbatim>\<open>open\<close> returns -1, \<open>main\<close> reports the failure on \<^verbatim>\<open>std::cerr\<close> and
  returns 1; the events of the whole run are the priority request, the open and the
  message, so the clock is never read and nothing is computed or written. If
  \<^verbatim>\<open>open\<close> returns anything else, \<open>main\<close> does not return.
\<close>

theorem open_failure_exits:
  "(open_ret e = - 1 \<longrightarrow>
      main e = Some (1, enable_realtime e
                        @ [Open_dev port, Cerr (''Failed to open UART'' @ [CHR 0x0A])])
      \<and> run e n = enable_realtime e
                     @ [Open_dev port, Cerr (''Failed to open UART'' @ [CHR 0x0A])]
      \<and> writes (run e n) = [] \<and> Clock_gettime \<notin> set (run e n) \<and> emitted e n = None)
   \<and> (open_ret e \<noteq> - 1 \<longrightarrow> main e = None)"
proof (intro conjI impI)
  assume f: "open_ret e = - 1"
  show "main e = Some (1, enable_realtime e
                        @ [Open_dev port, Cerr (''Failed to open UART'' @ [CHR 0x0A])])"
    by (rule main_exits [OF f])
  show r: "run e n = enable_realtime e
                     @ [Open_dev port, Cerr (''Failed to open UART'' @ [CHR 0x0A])]"
    by (rule run_fail [OF f])
  show "writes (run e n) = []"
    by (simp add: r writes_append)
  show "Clock_gettime \<notin> set (run e n)"
    by (simp add: r enable_realtime_def)
  show "emitted e n = None"
    by (simp add: emitted_def main_setup_fail [OF f])
next
  assume "open_ret e \<noteq> - 1"
  then show "main e = None"
    by (rule main_diverges)
qed

text \<open>
  C4, witness: one environment in which the device cannot be opened, and the steady
  one, in which it can.
\<close>

theorem open_failure_exits_witness:
  "open_ret no_uart_env = - 1
   \<and> main no_uart_env = Some (1, [Sched_setscheduler 70, Open_dev port,
                                   Cerr (''Failed to open UART'' @ [CHR 0x0A])])
   \<and> open_ret steady_env \<noteq> - 1 \<and> main steady_env = None"
  using open_failure_exits [of no_uart_env 0] open_failure_exits [of steady_env 0]
  by (simp add: no_uart_env_def enable_realtime_def)

text \<open>
  C5. When \<^verbatim>\<open>sched_setscheduler\<close> fails, the run differs from the run in which it
  succeeds (with any result \<open>r \<ge> 0\<close>) by exactly one event, the \<^verbatim>\<open>perror\<close> line that
  follows the request: the exit behaviour, every later event up to any iteration \<open>n\<close>
  and every sample are the same.
\<close>

theorem sched_failure_is_ignored:
  assumes "sched_setscheduler_ret e < 0" and "0 \<le> r"
  shows "map_option fst (main e) = map_option fst (main (e\<lparr>sched_setscheduler_ret := r\<rparr>))
     \<and> run (e\<lparr>sched_setscheduler_ret := r\<rparr>) n
         = Sched_setscheduler 70 # tl (run (e\<lparr>sched_setscheduler_ret := r\<rparr>) n)
     \<and> run e n = Sched_setscheduler 70 # Perror ''sched_setscheduler''
                   # tl (run (e\<lparr>sched_setscheduler_ret := r\<rparr>) n)
     \<and> emitted e n = emitted (e\<lparr>sched_setscheduler_ret := r\<rparr>) n"
proof (cases "open_ret e = - 1")
  case True
  let ?e' = "e\<lparr>sched_setscheduler_ret := r\<rparr>"
  have t: "open_ret ?e' = - 1" using True by simp
  show ?thesis
    using assms
    by (simp add: main_exits [OF True] main_exits [OF t] run_fail [OF True] run_fail [OF t]
        enable_realtime_cases emitted_def main_setup_fail [OF True] main_setup_fail [OF t])
next
  case False
  let ?e' = "e\<lparr>sched_setscheduler_ret := r\<rparr>"
  have f: "open_ret ?e' \<noteq> - 1" using False by simp
  have b: "loop_body ?e' = loop_body e"
    by (rule loop_body_env) simp_all
  let ?s = "\<lparr>serial_fd = open_ret e, next_t = add_ms (clock_gettime_out e 0) 50,
      start = clock_gettime_out e 1, clock_calls = 2,
      trace = [Open_dev port, Tcgetattr (open_ret e),
        Tcsetattr (open_ret e) (uart_config (tcgetattr_out e)), Cout banner, Clock_gettime,
        Clock_gettime]\<rparr>"
  have "run e n = trace ((loop_body e ^^ n)
      (?s\<lparr>trace := [Sched_setscheduler 70, Perror ''sched_setscheduler''] @ trace ?s\<rparr>))"
    using assms(1) by (simp add: run_ok [OF False] enable_realtime_cases)
  then have 1: "run e n = [Sched_setscheduler 70, Perror ''sched_setscheduler'']
      @ trace ((loop_body e ^^ n) ?s)"
    by (simp only: iter_prefix) simp
  have "run ?e' n = trace ((loop_body e ^^ n) (?s\<lparr>trace := [Sched_setscheduler 70] @ trace ?s\<rparr>))"
    using assms(2) by (simp add: run_ok [OF f] enable_realtime_cases b)
  then have 2: "run ?e' n = [Sched_setscheduler 70] @ trace ((loop_body e ^^ n) ?s)"
    by (simp only: iter_prefix) simp
  have 3: "emitted e n = emitted ?e' n"
  proof -
    have y: "tick_y ?e' = tick_y e"
      by (intro ext) (simp add: tick_y_def)
    have "tick_y e ((loop_body e ^^ n) (?s\<lparr>trace := p @ trace ?s\<rparr>)) = tick_y e ((loop_body e ^^ n) ?s)"
      for p
      by (simp only: iter_prefix) (simp add: tick_y_def)
    from this [of "[Sched_setscheduler 70, Perror ''sched_setscheduler'']"]
      this [of "[Sched_setscheduler 70]"]
    show ?thesis
      using assms
      by (simp add: emitted_def main_setup_ok [OF False] main_setup_ok [OF f]
          enable_realtime_cases b y)
  qed
  show ?thesis
    by (simp add: main_diverges [OF False] main_diverges [OF f] 1 2 3)
qed

text \<open>
  C5, witness: the environment in which the priority is refused, against the same
  environment with the request granted.
\<close>

theorem sched_failure_is_ignored_witness:
  "sched_setscheduler_ret late_env < 0 \<and> (0::int) \<le> 0
   \<and> main late_env = None \<and> main (late_env\<lparr>sched_setscheduler_ret := 0\<rparr>) = None
   \<and> run late_env 0 = Sched_setscheduler 70 # Perror ''sched_setscheduler''
        # tl (run (late_env\<lparr>sched_setscheduler_ret := 0\<rparr>) 0)
   \<and> run (late_env\<lparr>sched_setscheduler_ret := 0\<rparr>) 0
       = [Sched_setscheduler 70, Open_dev port, Tcgetattr 3,
          Tcsetattr 3 (uart_config zero_termios), Cout banner, Clock_gettime, Clock_gettime]"
proof -
  have "run (late_env\<lparr>sched_setscheduler_ret := 0\<rparr>) 0
       = [Sched_setscheduler 70, Open_dev port, Tcgetattr 3,
          Tcsetattr 3 (uart_config zero_termios), Cout banner, Clock_gettime, Clock_gettime]"
    by (simp add: run_def main_setup_def late_env_def enable_realtime_def Let_def)
  moreover have "main late_env = None" "main (late_env\<lparr>sched_setscheduler_ret := 0\<rparr>) = None"
    by (simp_all add: main_diverges late_env_def)
  ultimately show ?thesis
    using sched_failure_is_ignored [of late_env 0 0]
    by (simp add: late_env_def)
qed

lemma uart_config_configured: "configured (uart_config t)"
  by (simp add: configured_def uart_config_ispeed uart_config_ospeed uart_config_raw
      uart_config_cread_clocal)

text \<open>
  C7. Whatever attributes \<^verbatim>\<open>tcgetattr\<close> left in \<open>options\<close>, after the four
  configuration steps both speeds read back as \<open>B115200\<close>, the attributes are in raw
  mode, and \<open>CREAD\<close> and \<open>CLOCAL\<close> are set. When the device has been opened, these
  attributes are what is passed to \<^verbatim>\<open>tcsetattr\<close>, and that is the only
  \<^verbatim>\<open>tcsetattr\<close> of the run, however many iterations follow.
\<close>

theorem uart_is_configured:
  "configured (uart_config t)
   \<and> (open_ret e \<noteq> - 1 \<longrightarrow>
        tcsetattrs (run e n) = [(open_ret e, uart_config (tcgetattr_out e))]
        \<and> configured (snd (hd (tcsetattrs (run e n)))))"
proof (intro conjI impI)
  show "configured (uart_config t)"
    by (rule uart_config_configured)
  assume ok: "open_ret e \<noteq> - 1"
  show r: "tcsetattrs (run e n) = [(open_ret e, uart_config (tcgetattr_out e))]"
    by (simp add: run_ok [OF ok] iter_tcsetattrs tcsetattrs_append enable_realtime_def)
  show "configured (snd (hd (tcsetattrs (run e n))))"
    by (simp add: r uart_config_configured)
qed

text \<open>
  C7, witness: from all-zero attributes the control flags become \<open>0x18B2\<close>, which is
  \<open>B115200 | CS8 | CREAD | CLOCAL\<close>.
\<close>

theorem uart_is_configured_witness:
  "open_ret steady_env \<noteq> - 1
   \<and> tcsetattrs (run steady_env 1) = [(3, uart_config zero_termios)]
   \<and> c_cflag (uart_config zero_termios) = 0x18B2
   \<and> configured (uart_config zero_termios)"
proof -
  have "c_cflag (uart_config zero_termios) = 0x18B2"
    by (simp add: uart_config_cflag zero_termios_def mask_defs)
  then show ?thesis
    using uart_is_configured [of zero_termios steady_env 1]
    by (simp add: steady_env_def)
qed

text \<open>
  C8. From any state the transmission loop does not return; its condition holds after
  any number of iterations, and running the loop from the state after \<open>n\<close> iterations
  is running it from the state after \<open>n + 1\<close>. Hence \<open>main\<close> never returns status 0
  (the \<^verbatim>\<open>close\<close> and \<^verbatim>\<open>return 0\<close> after the loop are unreachable), and once the
  device is open it never returns at all.
\<close>

theorem transmission_loop_never_exits:
  "while_loop loop_cond (loop_body e) s = None
   \<and> loop_cond ((loop_body e ^^ n) s)
   \<and> while_loop loop_cond (loop_body e) ((loop_body e ^^ n) s)
       = while_loop loop_cond (loop_body e) ((loop_body e ^^ Suc n) s)
   \<and> main e \<noteq> Some (0, tr)
   \<and> (open_ret e \<noteq> - 1 \<longrightarrow> main e = None)"
proof -
  have n: "while_loop loop_cond (loop_body e) s' = None" for s'
    by (rule while_loop_forever) (simp add: loop_cond_def)
  have "main e \<noteq> Some (0, tr)"
  proof (cases "open_ret e = - 1")
    case True
    then show ?thesis by (simp add: main_exits)
  next
    case False
    then show ?thesis by (simp add: main_diverges)
  qed
  then show ?thesis
    by (simp add: n loop_cond_def main_diverges)
qed

text \<open>
  C8, witness: the steady run.
\<close>

theorem transmission_loop_never_exits_witness:
  "open_ret steady_env \<noteq> - 1 \<and> main steady_env = None
   \<and> while_loop loop_cond (loop_body steady_env) steady_entry = None
   \<and> loop_cond ((loop_body steady_env ^^ 3) steady_entry)"
  using transmission_loop_never_exits [of steady_env steady_entry 3]
  by simp

section \<open>The periodic deadline\<close>

lemma div_mod_step:
  fixes x :: int
  shows "(x + 50000000) div 1000000000 = x div 1000000000 + (x mod 1000000000 + 50000000) div 1000000000"
    and "(x + 50000000) mod 1000000000 = (x mod 1000000000 + 50000000) mod 1000000000"
  by (simp_all add: div_add1_eq [of x 50000000 1000000000] mod_add_left_eq)

lemma iter_add_ms:
  assumes "normalised d" and "in_s64 (tv_sec d)"
    and "in_s64 (tv_sec d + (tv_nsec d + int n * 50000000) div 1000000000)"
  shows "((\<lambda>t. add_ms t 50) ^^ n) d =
           \<lparr>tv_sec = tv_sec d + (tv_nsec d + int n * 50000000) div 1000000000,
            tv_nsec = (tv_nsec d + int n * 50000000) mod 1000000000\<rparr>"
  using assms(3)
proof (induction n)
  case 0
  from assms(1) have "tv_nsec d div 1000000000 = 0" "tv_nsec d mod 1000000000 = tv_nsec d"
    by (simp_all add: normalised_def)
  then show ?case by simp
next
  case (Suc n)
  let ?x = "tv_nsec d + int n * 50000000"
  let ?dn = "\<lparr>tv_sec = tv_sec d + ?x div 1000000000, tv_nsec = ?x mod 1000000000\<rparr>"
  have x0: "0 \<le> ?x"
    using assms(1) by (simp add: normalised_def)
  have s: "tv_nsec d + int (Suc n) * 50000000 = ?x + 50000000"
    by (simp add: algebra_simps)
  have c: "0 \<le> (?x mod 1000000000 + 50000000) div 1000000000"
    by (intro pos_imp_zdiv_nonneg_iff [THEN iffD2]) simp_all
  have hi: "in_s64 (tv_sec d + (?x + 50000000) div 1000000000)"
    using Suc.prems by (simp only: s)
  have "0 \<le> ?x div 1000000000"
    using x0 by (simp add: pos_imp_zdiv_nonneg_iff)
  then have bn: "in_s64 (tv_sec d + ?x div 1000000000)"
    using hi assms(2) c by (simp add: in_s64_def div_mod_step(1) [of ?x])
  have hi': "in_s64 (tv_sec d + (?x div 1000000000
      + (?x mod 1000000000 + 50000000) div 1000000000))"
    using hi by (simp only: div_mod_step(1) [of ?x])
  have ih: "((\<lambda>t. add_ms t 50) ^^ n) d = ?dn"
    by (rule Suc.IH [OF bn])
  have m: "0 \<le> ?x mod 1000000000" "?x mod 1000000000 < 1000000000"
    by simp_all
  have "add_ms ?dn 50 = ?dn\<lparr>tv_nsec := (tv_nsec ?dn + 50 * 1000000) mod 1000000000,
      tv_sec := tv_sec ?dn + (tv_nsec ?dn + 50 * 1000000) div 1000000000\<rparr>"
  proof (rule add_ms_eq)
    show "in_s64 (50 * 1000000)"
      by (simp add: in_s64_def)
    show "in_s64 (tv_nsec ?dn + 50 * 1000000)" "0 \<le> tv_nsec ?dn + 50 * 1000000"
      using m by (simp_all add: in_s64_def)
    show "in_s64 (tv_sec ?dn)"
      using bn by simp
    show "in_s64 (tv_sec ?dn + (tv_nsec ?dn + 50 * 1000000) div 1000000000)"
      using hi' by (simp add: add.assoc)
  qed
  then have "add_ms ?dn 50 = \<lparr>tv_sec = tv_sec d + (?x div 1000000000
        + (?x mod 1000000000 + 50000000) div 1000000000),
      tv_nsec = (?x mod 1000000000 + 50000000) mod 1000000000\<rparr>"
    by (simp add: add.assoc)
  then have "add_ms ?dn 50 = \<lparr>tv_sec = tv_sec d + (?x + 50000000) div 1000000000,
      tv_nsec = (?x + 50000000) mod 1000000000\<rparr>"
    by (simp only: div_mod_step [of ?x, symmetric])
  then show ?case
    by (simp only: funpow.simps o_apply ih s)
qed

lemma iter_add_ms_to_ns:
  assumes "normalised d" and "in_s64 (tv_sec d)"
    and "in_s64 (tv_sec d + (tv_nsec d + int n * 50000000) div 1000000000)"
  shows "to_ns (((\<lambda>t. add_ms t 50) ^^ n) d) = to_ns d + int n * 50 * 1000000"
    and "normalised (((\<lambda>t. add_ms t 50) ^^ n) d)"
  by (simp_all add: iter_add_ms [OF assms] to_ns_def normalised_def algebra_simps)

text \<open>
  C6. Let the first clock reading be a normalised timespec, as \<^verbatim>\<open>clock_gettime\<close>
  delivers it, and let the seconds stay within the 64-bit range for \<open>n + 1\<close> steps.
  Then the deadline at loop entry is that reading plus 50 ms, the deadline after \<open>n\<close>
  iterations is the deadline at entry plus exactly \<open>n * 50\<close> ms, it is normalised, and
  it is the \<open>n\<close>-fold \<open>add_ms\<close> of the deadline at entry: no later clock reading
  enters it.
\<close>

theorem deadline_after_n_iterations:
  assumes "main_setup e = Inr s0"
    and "normalised (clock_gettime_out e 0)" and "in_s64 (tv_sec (clock_gettime_out e 0))"
    and "in_s64 (tv_sec (clock_gettime_out e 0)
                 + (tv_nsec (clock_gettime_out e 0) + int (Suc n) * 50000000) div 1000000000)"
  shows "to_ns (next_t ((loop_body e ^^ n) s0)) = to_ns (next_t s0) + int n * 50 * 1000000
     \<and> to_ns (next_t s0) = to_ns (clock_gettime_out e 0) + 50 * 1000000
     \<and> normalised (next_t ((loop_body e ^^ n) s0))
     \<and> next_t ((loop_body e ^^ n) s0) = ((\<lambda>t. add_ms t 50) ^^ n) (next_t s0)"
proof -
  let ?c = "clock_gettime_out e 0"
  have n0: "next_t s0 = add_ms ?c 50"
    using main_setup_InrD(2) [OF assms(1)] by simp
  have it: "next_t ((loop_body e ^^ n) s0) = ((\<lambda>t. add_ms t 50) ^^ n) (next_t s0)"
    by (rule iter_fields(4))
  also have "\<dots> = ((\<lambda>t. add_ms t 50) ^^ Suc n) ?c"
    by (simp only: n0 funpow_Suc_right o_apply)
  finally have all: "next_t ((loop_body e ^^ n) s0) = ((\<lambda>t. add_ms t 50) ^^ Suc n) ?c" .
  have x0: "0 \<le> tv_nsec ?c"
    using assms(2) by (simp add: normalised_def)
  have "(tv_nsec ?c + 50000000) div 1000000000
      \<le> (tv_nsec ?c + int (Suc n) * 50000000) div 1000000000"
    by (rule zdiv_mono1) simp_all
  moreover have "0 \<le> (tv_nsec ?c + 50000000) div 1000000000"
    using x0 by (simp add: pos_imp_zdiv_nonneg_iff)
  ultimately have b1: "in_s64 (tv_sec ?c + (tv_nsec ?c + int (Suc 0) * 50000000) div 1000000000)"
    using assms(3,4) by (simp add: in_s64_def)
  have "to_ns (((\<lambda>t. add_ms t 50) ^^ Suc 0) ?c) = to_ns ?c + int (Suc 0) * 50 * 1000000"
    by (rule iter_add_ms_to_ns(1) [OF assms(2,3) b1])
  then have first: "to_ns (next_t s0) = to_ns ?c + 50 * 1000000"
    by (simp add: n0)
  have "to_ns (next_t ((loop_body e ^^ n) s0)) = to_ns ?c + int (Suc n) * 50 * 1000000"
    by (simp only: all iter_add_ms_to_ns(1) [OF assms(2,3,4)])
  then have "to_ns (next_t ((loop_body e ^^ n) s0)) = to_ns (next_t s0) + int n * 50 * 1000000"
    by (simp add: first algebra_simps)
  moreover have "normalised (next_t ((loop_body e ^^ n) s0))"
    by (simp only: all iter_add_ms_to_ns(2) [OF assms(2,3,4)])
  ultimately show ?thesis
    using first it by simp
qed

text \<open>
  C6, witness: in the steady run the deadline at entry is 100.05 s and after 25
  iterations 101.3 s.
\<close>

theorem deadline_after_n_iterations_witness:
  "main_setup steady_env = Inr steady_entry
   \<and> normalised (clock_gettime_out steady_env 0)
   \<and> in_s64 (tv_sec (clock_gettime_out steady_env 0))
   \<and> in_s64 (tv_sec (clock_gettime_out steady_env 0)
        + (tv_nsec (clock_gettime_out steady_env 0) + int (Suc 25) * 50000000) div 1000000000)
   \<and> to_ns (next_t steady_entry) = 100050000000
   \<and> to_ns (next_t ((loop_body steady_env ^^ 25) steady_entry)) = 101300000000"
proof -
  have c: "clock_gettime_out steady_env 0 = \<lparr>tv_sec = 100, tv_nsec = 0\<rparr>"
    by (simp add: steady_env_def steady_clock_def)
  have h: "normalised (clock_gettime_out steady_env 0)"
    "in_s64 (tv_sec (clock_gettime_out steady_env 0))"
    "in_s64 (tv_sec (clock_gettime_out steady_env 0)
        + (tv_nsec (clock_gettime_out steady_env 0) + int (Suc 25) * 50000000) div 1000000000)"
    by (simp_all add: c normalised_def in_s64_def)
  have e: "to_ns (next_t steady_entry) = 100050000000"
    by (simp add: steady_entry_def to_ns_def)
  have "to_ns (next_t ((loop_body steady_env ^^ 25) steady_entry))
      = to_ns (next_t steady_entry) + int 25 * 50 * 1000000"
    using deadline_after_n_iterations [OF steady_setup h] by (rule conjunct1)
  then have "to_ns (next_t ((loop_body steady_env ^^ 25) steady_entry)) = 101300000000"
    by (simp add: e)
  then show ?thesis
    using h e steady_setup by (simp only: simp_thms)
qed

section \<open>The emitted value and the clock\<close>

lemma emitted_eq:
  assumes "open_ret e \<noteq> - 1"
  shows "emitted e n = Some (sample (fp e)
           (t_sec_of (fp e) (clock_gettime_out e (n + 2)) (clock_gettime_out e 1)))"
  by (simp add: emitted_def main_setup_ok [OF assms] tick_y_def iter_fields Let_def add.commute)

lemma exact_t_sec:
  assumes "in_s64 (tv_sec now - tv_sec t0)" and "in_s64 (tv_nsec now - tv_nsec t0)"
  shows "t_sec_of exact_fpu now t0 = elapsed_sec now t0"
  by (simp add: t_sec_of_def exact_fpu_def fadd_def fdiv_def of_long_def s64_id [OF assms(1)]
      s64_id [OF assms(2)] elapsed_sec_def to_ns_def field_simps)

lemma exact_sample:
  "sample exact_fpu t = amplitude * sin (2 * pi * (33 / 100) * t) + offset"
  by (simp add: sample_def exact_fpu_def fadd_def fmul_def two_pi_def M_PI_def freq_def)

lemma pi_ge_3: "3 \<le> pi"
  using sin_x_le_x [of "pi / 6"] by (simp add: sin_30)

lemma sin_cubic_lower:
  fixes x :: real
  assumes "0 \<le> x"
  shows "x - x ^ 3 / 6 \<le> sin x"
proof -
  have "(\<Sum>m<3. sin_coeff m * x ^ m) = x"
    by (simp add: sin_coeff_def numeral_3_eq_3)
  with Maclaurin_sin_bound [of x 3] have "\<bar>sin x - x\<bar> \<le> inverse (fact 3) * \<bar>x\<bar> ^ 3"
    by simp
  moreover have "inverse (fact 3) * \<bar>x\<bar> ^ 3 = x ^ 3 / 6"
    using assms by (simp add: fact_numeral)
  ultimately show ?thesis
    by linarith
qed

lemma sin_gap:
  "1 / 80 < sin (2 * pi * (33 / 100) * (60 / 1000)) - sin (2 * pi * (33 / 100) * (1 * (50 / 1000)))"
proof -
  define a where "a = 2 * pi * (33 / 100) * (60 / 1000)"
  define b where "b = 2 * pi * (33 / 100) * (1 * (50 / 1000))"
  have a: "0 \<le> a" "a \<le> 1584 / 10000"
    using pi_less_4 by (simp_all add: a_def)
  have ab: "198 / 10000 \<le> a - b"
    using pi_ge_3 by (simp add: a_def b_def)
  have "a ^ 3 \<le> (1584 / 10000) ^ 3"
    by (rule power_mono [OF a(2) a(1)])
  then have c: "a ^ 3 / 6 \<le> 7 / 10000"
    by (simp add: power3_eq_cube)
  have "0 \<le> b"
    by (simp add: b_def)
  then have "sin b \<le> b"
    by (rule sin_x_le_x)
  moreover have "a - a ^ 3 / 6 \<le> sin a"
    using a(1) by (rule sin_cubic_lower)
  ultimately have "1 / 80 < sin a - sin b"
    using ab c by linarith
  then show ?thesis
    by (simp only: a_def b_def)
qed

text \<open>
  C1, as amended. Once the device is open, the sample of iteration \<open>n\<close> is the double
  computation of \<open>amplitude * sin(two_pi * freq * t_sec) + offset\<close> where \<open>t_sec\<close> is the
  time between the start reading (the second call of \<^verbatim>\<open>clock_gettime\<close>) and the
  reading taken in iteration \<open>n\<close>. On exact arithmetic, and with the two differences of
  the fields in range, this is \<open>4 * sin(2 * pi * 0.33 * t) + 4\<close> for the elapsed
  time \<open>t\<close> in seconds; it is the value at \<open>n * 50\<close> ms when the elapsed time is
  exactly \<open>n * 50\<close> ms.
\<close>

theorem emitted_value_at_tick:
  assumes "open_ret e \<noteq> - 1"
  shows "emitted e n = Some (sample (fp e)
            (t_sec_of (fp e) (clock_gettime_out e (n + 2)) (clock_gettime_out e 1)))
     \<and> (fp e = exact_fpu
          \<and> in_s64 (tv_sec (clock_gettime_out e (n + 2)) - tv_sec (clock_gettime_out e 1))
          \<and> in_s64 (tv_nsec (clock_gettime_out e (n + 2)) - tv_nsec (clock_gettime_out e 1))
        \<longrightarrow> emitted e n = Some (amplitude * sin (2 * pi * (33 / 100)
                  * elapsed_sec (clock_gettime_out e (n + 2)) (clock_gettime_out e 1)) + offset)
          \<and> (elapsed_sec (clock_gettime_out e (n + 2)) (clock_gettime_out e 1)
                = real n * (50 / 1000)
              \<longrightarrow> emitted e n
                  = Some (amplitude * sin (2 * pi * (33 / 100) * (real n * (50 / 1000))) + offset)))"
proof (intro conjI impI; (elim conjE)?)
  let ?now = "clock_gettime_out e (n + 2)" and ?t0 = "clock_gettime_out e 1"
  show g: "emitted e n = Some (sample (fp e) (t_sec_of (fp e) ?now ?t0))"
    by (rule emitted_eq [OF assms])
  assume x: "fp e = exact_fpu" and h: "in_s64 (tv_sec ?now - tv_sec ?t0)"
    "in_s64 (tv_nsec ?now - tv_nsec ?t0)"
  show r: "emitted e n
      = Some (amplitude * sin (2 * pi * (33 / 100) * elapsed_sec ?now ?t0) + offset)"
    using g by (simp only: x exact_t_sec [OF h] exact_sample)
  assume "elapsed_sec ?now ?t0 = real n * (50 / 1000)"
  with r show "emitted e n
      = Some (amplitude * sin (2 * pi * (33 / 100) * (real n * (50 / 1000))) + offset)"
    by (simp only:)
qed

text \<open>
  C1, witness: iteration 3 of the steady run, 150 ms after the start.
\<close>

theorem emitted_value_at_tick_witness:
  "open_ret steady_env \<noteq> - 1 \<and> fp steady_env = exact_fpu
   \<and> in_s64 (tv_sec (clock_gettime_out steady_env (3 + 2)) - tv_sec (clock_gettime_out steady_env 1))
   \<and> in_s64 (tv_nsec (clock_gettime_out steady_env (3 + 2)) - tv_nsec (clock_gettime_out steady_env 1))
   \<and> elapsed_sec (clock_gettime_out steady_env (3 + 2)) (clock_gettime_out steady_env 1)
        = real 3 * (50 / 1000)
   \<and> emitted steady_env 3
        = Some (amplitude * sin (2 * pi * (33 / 100) * (real 3 * (50 / 1000))) + offset)"
proof -
  have c: "clock_gettime_out steady_env = steady_clock"
    by (simp add: steady_env_def)
  have ok: "open_ret steady_env \<noteq> - 1" and x: "fp steady_env = exact_fpu"
    by simp_all
  have h: "in_s64 (tv_sec (clock_gettime_out steady_env (3 + 2)) - tv_sec (clock_gettime_out steady_env 1))"
    "in_s64 (tv_nsec (clock_gettime_out steady_env (3 + 2)) - tv_nsec (clock_gettime_out steady_env 1))"
    by (simp_all add: c steady_clock_def in_s64_def)
  have el: "elapsed_sec (clock_gettime_out steady_env (3 + 2)) (clock_gettime_out steady_env 1)
        = real 3 * (50 / 1000)"
    by (simp add: c elapsed_sec_def steady_clock_def to_ns_def)
  show ?thesis
    using emitted_value_at_tick [OF ok, of 3] ok x h el by blast
qed

lemma late_elapsed: "elapsed_sec (late_clock (1 + 2)) (late_clock 1) = 60 / 1000"
  by (simp add: elapsed_sec_def late_clock_def to_ns_def)

text \<open>
  C1, counterexample to the claim as stated. The process is woken 10 ms late from its
  first sleep, so iteration 1 reads the clock 60 ms after the start and emits
  \<open>4 * sin(2 * pi * 0.33 * 0.060) + 4\<close>. The value the claim gives for tick 1,
  \<open>4 * sin(2 * pi * 0.33 * (1 * 0.050)) + 4\<close>, is more than 0.05 away, which no
  rounding error accounts for.
\<close>

theorem emitted_value_late_wakeup_counterexample:
  "emitted late_env 1 = Some (4 * sin (2 * pi * (33 / 100) * (60 / 1000)) + 4)
   \<and> 1 / 20 < \<bar>(4 * sin (2 * pi * (33 / 100) * (60 / 1000)) + 4)
                - (4 * sin (2 * pi * (33 / 100) * (1 * (50 / 1000))) + 4)\<bar>"
proof -
  have ok: "open_ret late_env \<noteq> - 1"
    and e: "fp late_env = exact_fpu" "clock_gettime_out late_env = late_clock"
    by (simp_all add: late_env_def)
  have h: "in_s64 (tv_sec (late_clock (1 + 2)) - tv_sec (late_clock 1))"
    "in_s64 (tv_nsec (late_clock (1 + 2)) - tv_nsec (late_clock 1))"
    by (simp_all add: late_clock_def in_s64_def)
  have "emitted late_env 1 = Some (4 * sin (2 * pi * (33 / 100) * (60 / 1000)) + 4)"
    using emitted_eq [OF ok, of 1]
    by (simp only: e exact_t_sec [OF h] exact_sample late_elapsed amplitude_def offset_def)
  moreover have "1 / 20 < \<bar>(4 * sin (2 * pi * (33 / 100) * (60 / 1000)) + 4)
                - (4 * sin (2 * pi * (33 / 100) * (1 * (50 / 1000))) + 4)\<bar>"
    using sin_gap by linarith
  ultimately show ?thesis
    by (simp only: simp_thms)
qed

end
